theory Spec2Isabelle
  imports Main "HOL-Library.AList"
begin

section \<open>The admission webhook (internal/webhook/handler.go, patch.go)\<close>

subsection \<open>Data\<close>

text \<open>
  Go strings are byte sequences; \<open>len\<close> and slicing count bytes. They are modelled as
  \<open>string\<close> (a list of 8-bit characters). Nil pointers and nil maps are \<open>None\<close>.
\<close>

datatype EmptyDirVolumeSource = EmptyDirVolumeSource string

text \<open>
  A corev1.Volume: its name and the two members of its VolumeSource that the handler
  reads or writes (the other volume sources are never inspected).
\<close>

record Volume =
  VolumeName :: string
  EmptyDir :: "EmptyDirVolumeSource option"
  PersistentVolumeClaim :: "string option"

text \<open>
  A corev1.Pod, as far as the webhook and the controllers read it. A reading of a missing
  key, or of a nil map, gives the empty string. The deletion timestamp counts seconds
  from Go's zero time.
\<close>

record Pod =
  Namespace :: string
  Name :: string
  PodUID :: string
  Annotations :: "(string \<rightharpoonup> string) option"
  DeletionTimestamp :: "nat option"
  Volumes :: "Volume list"

definition annoGet :: "Pod \<Rightarrow> string \<Rightarrow> string" where
  "annoGet pod k =
     (case Annotations pod of
        None \<Rightarrow> ''''
      | Some m \<Rightarrow> (case m k of None \<Rightarrow> '''' | Some v \<Rightarrow> v))"

record AdmissionRequest =
  UID :: string
  Kind :: string
  ObjectRaw :: string

record AdmissionReview =
  Request :: "AdmissionRequest option"

record Status =
  Message :: string
  Code :: nat

record AdmissionResponse =
  RespUID :: string
  Allowed :: bool
  Patch :: "string option"
  PatchType :: "string option"
  Result :: "Status option"

text \<open>
  What one call of ServeHTTP does: it writes one review document, or it panics on a nil
  dereference before anything is written.
\<close>

datatype outcome = Panic | Written AdmissionResponse

text \<open>The values handed to addOp and replaceOp, before json.Marshal renders them.\<close>

datatype jsonValue = JString string | JStringMap "(string \<times> string) list" | JVolume Volume

record patchOp =
  Op :: string
  Path :: string
  Value :: jsonValue

record Handler =
  defaultSize :: string
  defaultSC :: string
  defaultAccess :: string

text \<open>
  The library calls whose code is outside the repository are parameters of the model:
  the JSON decoder of the request body (the error, if any, and the review variable as
  the decoder left it), the deserializer of the embedded pod, json.Marshal of the
  operations, the Unicode branch of strings.ToLower (taken when the string has a byte
  outside ASCII), strings.TrimSpace, and the order in which \<open>range\<close> visits a Go map
  (a rearrangement of its entries that the runtime chooses).
\<close>

record libs =
  jsonDecode :: "string \<Rightarrow> string option \<times> AdmissionReview"
  deserDecode :: "string \<Rightarrow> string + Pod"
  jsonMarshal :: "patchOp list \<Rightarrow> string + string"
  unicodeToLower :: "string \<Rightarrow> string"
  trimSpace :: "string \<Rightarrow> string"
  mapRange :: "(string \<times> string) list \<Rightarrow> (string \<times> string) list"

subsection \<open>Constants\<close>

definition convertedAnno :: string where
  "convertedAnno = ''pvc-webhook/converted''"

definition maxName :: nat where
  "maxName = 63"

subsection \<open>patch.go\<close>

definition addOp :: "string \<Rightarrow> jsonValue \<Rightarrow> patchOp" where
  "addOp p v = \<lparr>Op = ''add'', Path = p, Value = v\<rparr>"

definition replaceOp :: "string \<Rightarrow> jsonValue \<Rightarrow> patchOp" where
  "replaceOp p v = \<lparr>Op = ''replace'', Path = p, Value = v\<rparr>"

subsection \<open>String helpers\<close>

text \<open>strings.ReplaceAll with a one-byte pattern.\<close>

definition replaceAllChar :: "char \<Rightarrow> string \<Rightarrow> string \<Rightarrow> string" where
  "replaceAllChar old new s = concat (map (\<lambda>c. if c = old then new else [c]) s)"

definition trimPrefix :: "string \<Rightarrow> string \<Rightarrow> string" where
  "trimPrefix s pre = (if take (length pre) s = pre then drop (length pre) s else s)"

text \<open>strings.ReplaceAll(s, "--", "-"): matches are taken left to right and do not overlap.\<close>

fun replaceDashDash :: "string \<Rightarrow> string" where
  "replaceDashDash (a # b # s) =
     (if a = CHR ''-'' \<and> b = CHR ''-'' then CHR ''-'' # replaceDashDash s
      else a # replaceDashDash (b # s))"
| "replaceDashDash s = s"

text \<open>strings.Contains(s, "--").\<close>

fun containsDashDash :: "string \<Rightarrow> bool" where
  "containsDashDash (a # b # s) = ((a = CHR ''-'' \<and> b = CHR ''-'') \<or> containsDashDash (b # s))"
| "containsDashDash s = False"

lemma replaceDashDash_le: "length (replaceDashDash s) \<le> length s"
  by (induction s rule: replaceDashDash.induct) auto

lemma replaceDashDash_less: "containsDashDash s \<Longrightarrow> length (replaceDashDash s) < length s"
  by (induction s rule: replaceDashDash.induct) (auto simp: le_imp_less_Suc replaceDashDash_le)

text \<open>The loop \<open>for strings.Contains(s, "--") { s = strings.ReplaceAll(s, "--", "-") }\<close>.\<close>

function collapseLoop :: "string \<Rightarrow> string" where
  "collapseLoop s = (if containsDashDash s then collapseLoop (replaceDashDash s) else s)"
  by pat_completeness auto
termination
  by (relation "measure length") (auto simp: replaceDashDash_less)

declare collapseLoop.simps [simp del]

text \<open>strings.Trim(s, "-").\<close>

definition trimDash :: "string \<Rightarrow> string" where
  "trimDash s =
     rev (dropWhile (\<lambda>c. c = CHR ''-'') (rev (dropWhile (\<lambda>c. c = CHR ''-'') s)))"

definition isASCII :: "char \<Rightarrow> bool" where
  "isASCII c = ((of_char c :: nat) < 128)"

definition asciiLower :: "char \<Rightarrow> char" where
  "asciiLower c =
     (let n = (of_char c :: nat) in if 65 \<le> n \<and> n \<le> 90 then char_of (n + 32) else c)"

text \<open>
  strings.ToLower: a string of ASCII bytes has its letters A-Z lowered byte by byte;
  any other string goes through the Unicode tables.
\<close>

definition stringsToLower :: "libs \<Rightarrow> string \<Rightarrow> string" where
  "stringsToLower L s = (if list_all isASCII s then map asciiLower s else unicodeToLower L s)"

text \<open>The class \<open>[a-z0-9\-]\<close> whose complement is nameRe.\<close>

definition nameChar :: "char \<Rightarrow> bool" where
  "nameChar c =
     (let n = (of_char c :: nat)
      in (97 \<le> n \<and> n \<le> 122) \<or> (48 \<le> n \<and> n \<le> 57) \<or> c = CHR ''-'')"

text \<open>
  nameRe.ReplaceAllString(s, "-"). Go's regexp matches one rune at a time, so a
  multi-byte rune becomes one hyphen where this byte-wise replacement writes one hyphen
  per byte; collapseLoop, which sanitize runs next, erases that difference.
\<close>

definition nameReReplace :: "string \<Rightarrow> string" where
  "nameReReplace s = map (\<lambda>c. if nameChar c then c else CHR ''-'') s"

text \<open>fmt.Sprintf("%d", i) for an index.\<close>

fun showNat :: "nat \<Rightarrow> string" where
  "showNat n =
     (if n < 10 then [char_of (48 + n)]
      else showNat (n div 10) @ [char_of (48 + n mod 10)])"

declare showNat.simps [simp del]

subsection \<open>handler.go: pick, sanitize, pathEscape\<close>

fun pick :: "libs \<Rightarrow> string list \<Rightarrow> string" where
  "pick L [] = ''''"
| "pick L (v # vals) = (if trimSpace L v \<noteq> '''' then v else pick L vals)"

definition sanitize :: "libs \<Rightarrow> string \<Rightarrow> string" where
  "sanitize L s =
     (let s1 = stringsToLower L s;
          s2 = replaceAllChar (CHR ''_'') ''-'' s1;
          s3 = nameReReplace s2;
          s4 = collapseLoop s3
      in trimDash s4)"

definition pathEscape :: "string \<Rightarrow> string" where
  "pathEscape p =
     (let p1 = replaceAllChar (CHR ''~'') ''~0'' p;
          p2 = replaceAllChar (CHR ''/'') ''~1'' p1
      in ''/'' @ trimPrefix p2 ''/'')"

subsection \<open>handler.go: ServeHTTP\<close>

text \<open>
  Lines 96-97 of ServeHTTP: the claim name of a volume, from the namespace, the pod name
  and the volume name.
\<close>

definition claimFor :: "libs \<Rightarrow> string \<Rightarrow> string \<Rightarrow> string \<Rightarrow> string" where
  "claimFor L ns pn vn =
     (let claim = sanitize L (''pvc-'' @ ns @ ''-'' @ pn @ ''-'' @ vn)
      in if length claim > maxName then take maxName claim else claim)"

record loopVars =
  ops :: "patchOp list"
  addAnno :: "(string \<times> string) list"
  converted :: bool

text \<open>
  The loop over pod.Spec.Volumes, from index i on. The Go map addAnno is an association
  list with one entry per key: a store to a key that is present overwrites its value.
\<close>

fun volumesLoop :: "libs \<Rightarrow> Handler \<Rightarrow> Pod \<Rightarrow> nat \<Rightarrow> Volume list \<Rightarrow> loopVars \<Rightarrow> loopVars" where
  "volumesLoop L h pod i [] s = s"
| "volumesLoop L h pod i (v # vs) s =
     (if EmptyDir v = None then volumesLoop L h pod (Suc i) vs s
      else
        let volKey = ''pvc-webhook.vol/'' @ VolumeName v;
            size = pick L [annoGet pod (volKey @ ''.size''), defaultSize h];
            sc = pick L [annoGet pod (volKey @ ''.storageClass''), defaultSC h];
            am = pick L [annoGet pod (volKey @ ''.accessModes''), defaultAccess h];
            claim = claimFor L (Namespace pod) (Name pod) (VolumeName v);
            newVol = \<lparr>VolumeName = VolumeName v, EmptyDir = None,
                      PersistentVolumeClaim = Some claim\<rparr>;
            a1 = AList.update (volKey @ ''.size'') size (addAnno s);
            a2 = AList.update (volKey @ ''.storageClass'') sc a1;
            a3 = AList.update (volKey @ ''.accessModes'') am a2;
            a4 = AList.update (volKey @ ''.claimName'') claim a3
        in volumesLoop L h pod (Suc i) vs
             \<lparr>ops = ops s @ [replaceOp (''/spec/volumes/'' @ showNat i) (JVolume newVol)],
              addAnno = a4, converted = True\<rparr>)"

text \<open>
  Lines 80-129: the operations handed to json.Marshal, or None when no volume was
  converted.
\<close>

definition patchOps :: "libs \<Rightarrow> Handler \<Rightarrow> Pod \<Rightarrow> patchOp list option" where
  "patchOps L h pod =
     (let s = volumesLoop L h pod 0 (Volumes pod) \<lparr>ops = [], addAnno = [], converted = False\<rparr>
      in if \<not> converted s then None
         else Some
           (ops s
            @ (if Annotations pod = None then [addOp ''/metadata/annotations'' (JStringMap [])]
               else [])
            @ map (\<lambda>(k, v). addOp (pathEscape (''/metadata/annotations/'' @ k)) (JString v))
                (mapRange L (addAnno s))
            @ [addOp (pathEscape (''/metadata/annotations/'' @ convertedAnno)) (JString ''true'')]))"

text \<open>allow and toErrorResponse read in.Request.UID: a nil Request is a panic.\<close>

definition allow :: "AdmissionReview \<Rightarrow> outcome" where
  "allow review =
     (case Request review of
        None \<Rightarrow> Panic
      | Some rq \<Rightarrow>
          Written \<lparr>RespUID = UID rq, Allowed = True, Patch = None, PatchType = None,
                   Result = None\<rparr>)"

definition toErrorResponse :: "AdmissionReview \<Rightarrow> string \<Rightarrow> outcome" where
  "toErrorResponse review err =
     (case Request review of
        None \<Rightarrow> Panic
      | Some rq \<Rightarrow>
          Written \<lparr>RespUID = UID rq, Allowed = False, Patch = None, PatchType = None,
                   Result = Some \<lparr>Message = err, Code = 500\<rparr>\<rparr>)"

definition ServeHTTP :: "libs \<Rightarrow> Handler \<Rightarrow> string \<Rightarrow> outcome" where
  "ServeHTTP L h body =
     (case jsonDecode L body of
        (Some err, review) \<Rightarrow> toErrorResponse review err
      | (None, review) \<Rightarrow>
          (case Request review of
             None \<Rightarrow> allow review
           | Some rq \<Rightarrow>
               if Kind rq \<noteq> ''Pod'' then allow review
               else
                 (case deserDecode L (ObjectRaw rq) of
                    Inl err \<Rightarrow> toErrorResponse review (''decode pod: '' @ err)
                  | Inr pod \<Rightarrow>
                      if Annotations pod \<noteq> None \<and> annoGet pod convertedAnno = ''true''
                      then allow review
                      else
                        (case patchOps L h pod of
                           None \<Rightarrow> allow review
                         | Some opsL \<Rightarrow>
                             (case jsonMarshal L opsL of
                                Inl err \<Rightarrow> toErrorResponse review (''marshal patch: '' @ err)
                              | Inr patchBytes \<Rightarrow>
                                  Written \<lparr>RespUID = UID rq, Allowed = True,
                                           Patch = Some patchBytes,
                                           PatchType = Some ''JSONPatch'',
                                           Result = Some \<lparr>Message = ''converted emptyDir to PVC'',
                                                          Code = 0\<rparr>\<rparr>)))))"

text \<open>
  escapeJSONPointer of main.go (the older webhook, lines 24-28): it escapes one
  reference token, and its caller joins the token to the annotations path with a plain
  separator.
\<close>

definition escapeJSONPointer :: "string \<Rightarrow> string" where
  "escapeJSONPointer s =
     replaceAllChar (CHR ''/'') ''~1'' (replaceAllChar (CHR ''~'') ''~0'' s)"

subsection \<open>Vocabulary of the specification\<close>

text \<open>
  The name pattern of the specification, \<open>^[a-z0-9]([a-z0-9-]*[a-z0-9])?$\<close>, written
  from the specification's words: a first and a last character in \<open>[a-z0-9]\<close>, and
  only characters of \<open>[a-z0-9-]\<close> between them.
\<close>

definition lowerAlnum :: "char \<Rightarrow> bool" where
  "lowerAlnum c =
     (let n = (of_char c :: nat) in (97 \<le> n \<and> n \<le> 122) \<or> (48 \<le> n \<and> n \<le> 57))"

definition matchesNameRegex :: "string \<Rightarrow> bool" where
  "matchesNameRegex s =
     (case s of
        [] \<Rightarrow> False
      | c # cs \<Rightarrow> lowerAlnum c \<and> lowerAlnum (last s) \<and> list_all nameChar s)"

text \<open>The volume that replaces an emptyDir volume (lines 100-107).\<close>

definition newVolume :: "libs \<Rightarrow> Pod \<Rightarrow> Volume \<Rightarrow> Volume" where
  "newVolume L pod v =
     \<lparr>VolumeName = VolumeName v, EmptyDir = None,
      PersistentVolumeClaim = Some (claimFor L (Namespace pod) (Name pod) (VolumeName v))\<rparr>"

text \<open>The emptyDir volumes of a list with their indices, counted from i.\<close>

definition emptyDirVolumes :: "nat \<Rightarrow> Volume list \<Rightarrow> (nat \<times> Volume) list" where
  "emptyDirVolumes i vs = filter (\<lambda>(j, v). EmptyDir v \<noteq> None) (List.enumerate i vs)"

section \<open>The reconcilers (controllers/oneagent-controller.go and the PVCReconciler)\<close>

subsection \<open>Data\<close>

text \<open>
  An error of the API client with the reason that errors.IsNotFound and
  errors.IsAlreadyExists look at.
\<close>

datatype statusReason = NotFound | AlreadyExists | OtherReason string

record apiError =
  Reason :: statusReason
  ErrMessage :: string

definition IsNotFound :: "apiError \<Rightarrow> bool" where
  "IsNotFound e = (Reason e = NotFound)"

text \<open>A resource.Quantity: an amount and its suffix.\<close>

datatype quantity = Quantity nat string

record OwnerReference =
  OwnerKind :: string
  OwnerName :: string
  OwnerUID :: string
  Controller :: bool
  BlockOwnerDeletion :: bool

record PVC =
  PVCName :: string
  PVCNamespace :: string
  Labels :: "(string \<times> string) list"
  OwnerReferences :: "OwnerReference list"
  AccessModes :: "string list"
  StorageRequest :: quantity
  StorageClassName :: "string option"
  Phase :: string

text \<open>
  The cluster as one reconcile pass meets it: what each client call answers, and
  resource.ParseQuantity, whose code is outside the repository. The answers are
  independent of each other, so that a create may fail after a lookup found nothing.
\<close>

record cluster =
  getPod :: "string \<times> string \<Rightarrow> apiError + Pod"
  getPVC :: "string \<times> string \<Rightarrow> apiError + PVC"
  createPVC :: "PVC \<Rightarrow> apiError option"
  deletePVC :: "PVC \<Rightarrow> apiError option"
  parseQuantity :: "string \<Rightarrow> string + quantity"

text \<open>
  The effects of a pass, in the order the code issues them: requests to the cluster, log
  lines and recorded events.
\<close>

datatype event =
    GetPodReq "string \<times> string"
  | GetPVCReq "string \<times> string"
  | CreateReq PVC
  | DeleteReq PVC
  | LogInfo string
  | LogError string
  | RecorderEvent string

text \<open>
  A pass returns a ctrl.Result (its RequeueAfter in seconds, 0 for the empty result) and
  an error, or panics (resource.MustParse).
\<close>

datatype reconcileOutcome =
    Returned "event list" nat "apiError option"
  | Panicked "event list"

record PersistentVolumeClaimReconciler =
  RecorderSet :: bool

record PVCReconciler =
  DefaultSize :: string
  DefaultClass :: string

subsection \<open>Helpers\<close>

text \<open>metav1.Time.IsZero on the pointer: nil, or Go's zero time.\<close>

definition timeIsZero :: "nat option \<Rightarrow> bool" where
  "timeIsZero t = (case t of None \<Rightarrow> True | Some n \<Rightarrow> n = 0)"

text \<open>metav1.NewControllerRef(&pod, corev1.SchemeGroupVersion.WithKind("Pod")).\<close>

definition NewControllerRef :: "Pod \<Rightarrow> OwnerReference" where
  "NewControllerRef pod =
     \<lparr>OwnerKind = ''Pod'', OwnerName = Name pod, OwnerUID = PodUID pod, Controller = True,
      BlockOwnerDeletion = True\<rparr>"

fun events :: "reconcileOutcome \<Rightarrow> event list" where
  "events (Returned evs res err) = evs"
| "events (Panicked evs) = evs"

fun createdPVC :: "event \<Rightarrow> PVC option" where
  "createdPVC (CreateReq p) = Some p"
| "createdPVC e = None"

fun deletedPVC :: "event \<Rightarrow> PVC option" where
  "deletedPVC (DeleteReq p) = Some p"
| "deletedPVC e = None"

definition createRequests :: "reconcileOutcome \<Rightarrow> PVC list" where
  "createRequests out = List.map_filter createdPVC (events out)"

definition deleteRequests :: "reconcileOutcome \<Rightarrow> PVC list" where
  "deleteRequests out = List.map_filter deletedPVC (events out)"

subsection \<open>PersistentVolumeClaimReconciler.Reconcile (controllers/oneagent-controller.go)\<close>

text \<open>Lines 77-119: build the claim, create it, report.\<close>

definition PersistentVolumeClaimReconciler_create ::
  "cluster \<Rightarrow> PersistentVolumeClaimReconciler \<Rightarrow> Pod \<Rightarrow> string \<Rightarrow> string \<Rightarrow> event list \<Rightarrow>
   quantity \<Rightarrow> reconcileOutcome" where
  "PersistentVolumeClaimReconciler_create C r pod claimName storageClass evs qty =
     (let pvc = \<lparr>PVCName = claimName, PVCNamespace = Namespace pod,
                 Labels = [(''created-by'', ''pvc-webhook''), (''pod'', Name pod)],
                 OwnerReferences = [NewControllerRef pod],
                 AccessModes = [''ReadWriteOnce''],
                 StorageRequest = qty,
                 StorageClassName = (if storageClass \<noteq> '''' then Some storageClass else None),
                 Phase = ''''\<rparr>
      in case createPVC C pvc of
           Some err \<Rightarrow> Returned (evs @ [CreateReq pvc]) 0 (Some err)
         | None \<Rightarrow>
             Returned
               (evs @ [CreateReq pvc, LogInfo ''Created PVC for Pod'']
                @ (if RecorderSet r then [RecorderEvent ''PVCProvisioned''] else []))
               5 None)"

definition PersistentVolumeClaimReconciler_Reconcile ::
  "cluster \<Rightarrow> PersistentVolumeClaimReconciler \<Rightarrow> string \<times> string \<Rightarrow> reconcileOutcome" where
  "PersistentVolumeClaimReconciler_Reconcile C r req =
     (case getPod C req of
        Inl err \<Rightarrow>
          (if IsNotFound err then Returned [GetPodReq req] 0 None
           else Returned [GetPodReq req] 0 (Some err))
      | Inr pod \<Rightarrow>
          (let claimName = annoGet pod ''pvc-webhook/claim'' in
           if claimName = '''' then Returned [GetPodReq req] 0 None
           else
             (let storageSize0 = annoGet pod ''pvc-webhook/storage-size'';
                  storageSize = (if storageSize0 = '''' then ''2Gi'' else storageSize0);
                  storageClass = annoGet pod ''pvc-webhook/storage-class'';
                  key = (Namespace pod, claimName);
                  evs = [GetPodReq req, GetPVCReq key]
              in (case getPVC C key of
                    Inr pvc \<Rightarrow>
                      (if Phase pvc = ''Bound''
                       then Returned (evs @ [LogInfo ''PVC already bound'']) 0 None
                       else if Phase pvc = ''Pending''
                       then Returned (evs @ [LogInfo ''PVC exists but not yet bound'']) 5 None
                       else Returned (evs @ [LogInfo ''PVC in unexpected phase'']) 10 None)
                  | Inl err \<Rightarrow>
                      (if \<not> IsNotFound err then Returned evs 0 (Some err)
                       else
                         (case parseQuantity C storageSize of
                            Inr qty \<Rightarrow>
                              PersistentVolumeClaimReconciler_create C r pod claimName
                                storageClass evs qty
                          | Inl parseErr \<Rightarrow>
                              (let evs' =
                                 evs @ [LogError
                                   ''Invalid storage-size annotation, defaulting to 2Gi'']
                               in (case parseQuantity C ''2Gi'' of
                                     Inl mustErr \<Rightarrow> Panicked evs'
                                   | Inr qty \<Rightarrow>
                                       PersistentVolumeClaimReconciler_create C r pod claimName
                                         storageClass evs' qty))))))))"

subsection \<open>PVCReconciler.Reconcile\<close>

text \<open>Lines 37-49: the pod is being deleted.\<close>

definition PVCReconciler_cleanup ::
  "cluster \<Rightarrow> string \<times> string \<Rightarrow> Pod \<Rightarrow> string \<Rightarrow> reconcileOutcome" where
  "PVCReconciler_cleanup C req pod claimName =
     (let key = (Namespace pod, claimName) in
      (case getPVC C key of
         Inr pvc \<Rightarrow>
           (case deletePVC C pvc of
              Some delErr \<Rightarrow>
                Returned
                  [GetPodReq req, GetPVCReq key, DeleteReq pvc, LogError ''failed to delete PVC'']
                  0 (Some delErr)
            | None \<Rightarrow>
                Returned
                  [GetPodReq req, GetPVCReq key, DeleteReq pvc, LogInfo ''Deleted PVC for Pod'']
                  0 None)
       | Inl err \<Rightarrow> Returned [GetPodReq req, GetPVCReq key] 0 None))"

text \<open>Lines 62-105: the size has parsed; look the claim up and create it when absent.\<close>

definition PVCReconciler_ensure ::
  "cluster \<Rightarrow> PVCReconciler \<Rightarrow> string \<times> string \<Rightarrow> Pod \<Rightarrow> string \<Rightarrow> quantity \<Rightarrow>
   reconcileOutcome" where
  "PVCReconciler_ensure C r req pod claimName sizeQ =
     (let className0 = annoGet pod ''pvc-webhook/storage-class'';
          className = (if className0 = '''' then DefaultClass r else className0);
          key = (Namespace pod, claimName);
          evs = [GetPodReq req, GetPVCReq key]
      in (case getPVC C key of
            Inr found \<Rightarrow> Returned (evs @ [LogInfo ''PVC already exists for Pod'']) 0 None
          | Inl err \<Rightarrow>
              (if \<not> IsNotFound err then Returned evs 0 (Some err)
               else
                 (let pvc = \<lparr>PVCName = claimName, PVCNamespace = Namespace pod,
                             Labels = [],
                             OwnerReferences = [NewControllerRef pod],
                             AccessModes = [''ReadWriteOnce''],
                             StorageRequest = sizeQ,
                             StorageClassName = Some className,
                             Phase = ''''\<rparr>
                  in (case createPVC C pvc of
                        Some createErr \<Rightarrow> Returned (evs @ [CreateReq pvc]) 0 (Some createErr)
                      | None \<Rightarrow>
                          Returned (evs @ [CreateReq pvc, LogInfo ''Created PVC for Pod''])
                            0 None)))))"

definition PVCReconciler_Reconcile ::
  "cluster \<Rightarrow> PVCReconciler \<Rightarrow> string \<times> string \<Rightarrow> reconcileOutcome" where
  "PVCReconciler_Reconcile C r req =
     (case getPod C req of
        Inl err \<Rightarrow>
          (if IsNotFound err then Returned [GetPodReq req] 0 None
           else Returned [GetPodReq req] 0 (Some err))
      | Inr pod \<Rightarrow>
          (let claimName = annoGet pod ''pvc-webhook/claim'' in
           if claimName = '''' then Returned [GetPodReq req] 0 None
           else if \<not> timeIsZero (DeletionTimestamp pod)
           then PVCReconciler_cleanup C req pod claimName
           else
             (let sizeStr0 = annoGet pod ''pvc-webhook/storage-size'';
                  sizeStr = (if sizeStr0 = '''' then DefaultSize r else sizeStr0)
              in (case parseQuantity C sizeStr of
                    Inl err \<Rightarrow>
                      Returned [GetPodReq req, LogError ''invalid storage size''] 0 None
                  | Inr sizeQ \<Rightarrow> PVCReconciler_ensure C r req pod claimName sizeQ))))"

section \<open>Example inputs\<close>

text \<open>
  The scenarios of the specification: the handler with its built-in defaults, the pod
  web-0 of namespace ns1 with one emptyDir volume, the same pod carrying the converted
  marker, and stand-ins for the library calls (a body that does not parse, a review
  without a request, reviews of kind Pod whose object names the pod, and a marshal
  that writes out every operation with its value).
\<close>

definition exampleHandler :: Handler where
  "exampleHandler =
     \<lparr>defaultSize = ''10Gi'', defaultSC = ''standard'', defaultAccess = ''ReadWriteOnce''\<rparr>"

definition web0 :: Pod where
  "web0 =
     \<lparr>Namespace = ''ns1'', Name = ''web-0'', PodUID = ''uid-web-0'', Annotations = None,
      DeletionTimestamp = None,
      Volumes = [\<lparr>VolumeName = ''data'', EmptyDir = Some (EmptyDirVolumeSource ''''),
                  PersistentVolumeClaim = None\<rparr>]\<rparr>"

definition web0Converted :: Pod where
  "web0Converted = web0\<lparr>Annotations := Some [''pvc-webhook/converted'' \<mapsto> ''true'']\<rparr>"

text \<open>The pod again, with an annotation map and a volume of another kind before data.\<close>

definition web0Mixed :: Pod where
  "web0Mixed =
     web0\<lparr>Annotations := Some [''team'' \<mapsto> ''storage''],
          Volumes := [\<lparr>VolumeName = ''config'', EmptyDir = None, PersistentVolumeClaim = None\<rparr>,
                      \<lparr>VolumeName = ''data'', EmptyDir = Some (EmptyDirVolumeSource ''Memory''),
                       PersistentVolumeClaim = None\<rparr>]\<rparr>"

definition otherHandler :: Handler where
  "otherHandler =
     \<lparr>defaultSize = ''1Gi'', defaultSC = ''fast'', defaultAccess = ''ReadWriteMany''\<rparr>"

text \<open>
  The pod with three volumes and no annotation map: emptyDir volumes at the indices 0
  and 2, a volume of another kind between them.
\<close>

definition web1 :: Pod where
  "web1 =
     \<lparr>Namespace = ''ns1'', Name = ''web-1'', PodUID = ''uid-web-1'', Annotations = None,
      DeletionTimestamp = None,
      Volumes = [\<lparr>VolumeName = ''data'', EmptyDir = Some (EmptyDirVolumeSource ''''),
                  PersistentVolumeClaim = None\<rparr>,
                 \<lparr>VolumeName = ''config'', EmptyDir = None, PersistentVolumeClaim = None\<rparr>,
                 \<lparr>VolumeName = ''cache'', EmptyDir = Some (EmptyDirVolumeSource ''Memory''),
                  PersistentVolumeClaim = None\<rparr>]\<rparr>"

text \<open>
  A rendering of the operations for the marshal stand-in: every operation with its op,
  its path and its value, in the order of the list.
\<close>

fun renderValue :: "jsonValue \<Rightarrow> string" where
  "renderValue (JString s) = ''string '' @ s"
| "renderValue (JStringMap kvs) =
     ''map {'' @ concat (map (\<lambda>(k, v). k @ ''='' @ v @ '','') kvs) @ ''}''"
| "renderValue (JVolume v) =
     ''volume '' @ VolumeName v @ '' claim ''
     @ (case PersistentVolumeClaim v of None \<Rightarrow> ''-'' | Some c \<Rightarrow> c)"

definition renderOps :: "patchOp list \<Rightarrow> string" where
  "renderOps opsL =
     concat (map (\<lambda>x. ''{op '' @ Op x @ ''; path '' @ Path x @ ''; value ''
                        @ renderValue (Value x) @ ''} '') opsL)"

definition exampleLibs :: libs where
  "exampleLibs =
     \<lparr>jsonDecode = (\<lambda>body.
        if body = ''not json'' then (Some ''invalid character'', \<lparr>Request = None\<rparr>)
        else if body = ''{}'' then (None, \<lparr>Request = None\<rparr>)
        else (None, \<lparr>Request = Some \<lparr>UID = ''uid-1'', Kind = ''Pod'', ObjectRaw = body\<rparr>\<rparr>)),
      deserDecode = (\<lambda>raw.
        if raw = ''web-0'' then Inr web0
        else if raw = ''web-0-converted'' then Inr web0Converted
        else if raw = ''web-1'' then Inr web1
        else Inl ''unexpected end of JSON input''),
      jsonMarshal = (\<lambda>opsL. Inr (renderOps opsL)),
      unicodeToLower = (\<lambda>s. s),
      trimSpace = (\<lambda>s.
        rev (dropWhile (\<lambda>c. c = CHR '' '') (rev (dropWhile (\<lambda>c. c = CHR '' '') s)))),
      mapRange = rev\<rparr>"

text \<open>
  A cluster for one pass: the pod under its key, one answer to the claim lookup, one
  answer to a create, deletes that succeed, and a parser that knows three sizes.
\<close>

definition notFound :: apiError where
  "notFound = \<lparr>Reason = NotFound, ErrMessage = ''persistentvolumeclaims not found''\<rparr>"

definition alreadyExists :: apiError where
  "alreadyExists =
     \<lparr>Reason = AlreadyExists, ErrMessage = ''persistentvolumeclaims already exists''\<rparr>"

definition exampleParse :: "string \<Rightarrow> string + quantity" where
  "exampleParse s =
     (if s = ''2Gi'' then Inr (Quantity 2 ''Gi'')
      else if s = ''5Gi'' then Inr (Quantity 5 ''Gi'')
      else if s = ''10Gi'' then Inr (Quantity 10 ''Gi'')
      else Inl ''quantities must match the regular expression'')"

definition claimedPod :: "string \<Rightarrow> nat option \<Rightarrow> Pod" where
  "claimedPod sz del =
     \<lparr>Namespace = ''ns1'', Name = ''web-0'', PodUID = ''uid-web-0'',
      Annotations =
        Some [''pvc-webhook/claim'' \<mapsto> ''pvc-x'', ''pvc-webhook/storage-size'' \<mapsto> sz],
      DeletionTimestamp = del, Volumes = []\<rparr>"

definition exampleCluster :: "Pod \<Rightarrow> apiError + PVC \<Rightarrow> apiError option \<Rightarrow> cluster" where
  "exampleCluster pod pvcAnswer createAnswer =
     \<lparr>getPod = (\<lambda>k. if k = (Namespace pod, Name pod) then Inr pod else Inl notFound),
      getPVC = (\<lambda>k. pvcAnswer),
      createPVC = (\<lambda>p. createAnswer),
      deletePVC = (\<lambda>p. None),
      parseQuantity = exampleParse\<rparr>"

definition boundPVC :: PVC where
  "boundPVC =
     \<lparr>PVCName = ''pvc-x'', PVCNamespace = ''ns1'', Labels = [], OwnerReferences = [],
      AccessModes = [''ReadWriteOnce''], StorageRequest = Quantity 5 ''Gi'',
      StorageClassName = None, Phase = ''Bound''\<rparr>"

definition examplePVCReconciler :: PVCReconciler where
  "examplePVCReconciler = \<lparr>DefaultSize = ''10Gi'', DefaultClass = ''standard''\<rparr>"

section \<open>Properties of the webhook\<close>

subsection \<open>Helper lemmas\<close>

lemma replaceAllChar_append:
  "replaceAllChar a b (s @ t) = replaceAllChar a b s @ replaceAllChar a b t"
  by (simp add: replaceAllChar_def)

lemma replaceAllChar_Cons:
  "replaceAllChar a b (c # t) = (if c = a then b else [c]) @ replaceAllChar a b t"
  by (simp add: replaceAllChar_def)

lemma replaceAllChar_Nil: "replaceAllChar a b [] = []"
  by (simp add: replaceAllChar_def)

lemma pathEscape_annotation_key:
  "pathEscape (''/metadata/annotations/'' @ k) =
     ''/~1metadata~1annotations~1'' @ escapeJSONPointer k"
  by (simp add: pathEscape_def escapeJSONPointer_def replaceAllChar_append
      replaceAllChar_Cons replaceAllChar_Nil trimPrefix_def)

lemma claimFor_length: "length (claimFor L ns pn vn) \<le> 63"
  by (simp add: claimFor_def maxName_def Let_def)

lemma claimFor_libs: "unicodeToLower L1 = unicodeToLower L2 \<Longrightarrow> claimFor L1 = claimFor L2"
  by (auto simp: claimFor_def sanitize_def stringsToLower_def fun_eq_iff)

lemma volumesLoop_ops:
  "ops (volumesLoop L h pod i vs s) =
     ops s @ map (\<lambda>(j, v). replaceOp (''/spec/volumes/'' @ showNat j) (JVolume (newVolume L pod v)))
               (emptyDirVolumes i vs)"
proof (induction vs arbitrary: i s)
  case Nil
  show ?case by (simp add: emptyDirVolumes_def)
next
  case (Cons v vs)
  show ?case
  proof (cases "EmptyDir v = None")
    case True
    then show ?thesis using Cons.IH[of "Suc i" s] by (simp add: emptyDirVolumes_def)
  next
    case False
    then show ?thesis
      by (simp add: Cons.IH emptyDirVolumes_def Let_def newVolume_def)
  qed
qed

lemma emptyDirVolumes_sorted: "sorted_wrt (<) (map fst (emptyDirVolumes i vs))"
proof -
  have "sorted_wrt (<) (map fst (List.enumerate i vs))"
    by (simp add: map_fst_enumerate)
  then show ?thesis unfolding emptyDirVolumes_def
    by (metis (no_types, lifting) sorted_wrt_filter sorted_wrt_map)
qed

lemma emptyDirVolumes_nth:
  "(j, v) \<in> set (emptyDirVolumes 0 vs) \<Longrightarrow> j < length vs \<and> vs ! j = v \<and> EmptyDir v \<noteq> None"
  by (auto simp: emptyDirVolumes_def in_set_enumerate_eq)

lemma patchOps_shape:
  assumes "patchOps L h pod = Some opsL"
  shows "\<exists>annos. opsL =
           map (\<lambda>(j, v). replaceOp (''/spec/volumes/'' @ showNat j) (JVolume (newVolume L pod v)))
             (emptyDirVolumes 0 (Volumes pod))
           @ (if Annotations pod = None then [addOp ''/metadata/annotations'' (JStringMap [])]
              else [])
           @ map (\<lambda>(k, v). addOp (pathEscape (''/metadata/annotations/'' @ k)) (JString v)) annos
           @ [addOp (pathEscape ''/metadata/annotations/pvc-webhook/converted'') (JString ''true'')]"
  using assms
  by (auto simp: patchOps_def Let_def volumesLoop_ops convertedAnno_def split: if_splits)

lemma patchOps_volume_values:
  assumes "patchOps L h pod = Some opsL" and "x \<in> set opsL" and "Value x = JVolume nv"
  shows "PersistentVolumeClaim nv = Some (claimFor L (Namespace pod) (Name pod) (VolumeName nv))"
proof -
  from patchOps_shape[OF assms(1)] obtain annos where
    eq: "opsL =
           map (\<lambda>(j, v). replaceOp (''/spec/volumes/'' @ showNat j) (JVolume (newVolume L pod v)))
             (emptyDirVolumes 0 (Volumes pod))
           @ (if Annotations pod = None then [addOp ''/metadata/annotations'' (JStringMap [])]
              else [])
           @ map (\<lambda>(k, v). addOp (pathEscape (''/metadata/annotations/'' @ k)) (JString v)) annos
           @ [addOp (pathEscape ''/metadata/annotations/pvc-webhook/converted'') (JString ''true'')]"
    by blast
  from assms(2,3) show ?thesis unfolding eq
    by (auto simp: addOp_def replaceOp_def newVolume_def split: if_splits)
qed

text \<open>
  What ServeHTTP does for the two decode failures when the review has a request: a
  response that denies, with the error as its message.
\<close>

lemma body_decode_error_with_request:
  "jsonDecode L body = (Some err, review) \<Longrightarrow> Request review = Some rq \<Longrightarrow>
   ServeHTTP L h body =
     Written \<lparr>RespUID = UID rq, Allowed = False, Patch = None, PatchType = None,
              Result = Some \<lparr>Message = err, Code = 500\<rparr>\<rparr>"
  by (simp add: ServeHTTP_def toErrorResponse_def)

lemma pod_decode_error_denied:
  "jsonDecode L body = (None, review) \<Longrightarrow> Request review = Some rq \<Longrightarrow> Kind rq = ''Pod'' \<Longrightarrow>
   deserDecode L (ObjectRaw rq) = Inl err \<Longrightarrow>
   ServeHTTP L h body =
     Written \<lparr>RespUID = UID rq, Allowed = False, Patch = None, PatchType = None,
              Result = Some \<lparr>Message = ''decode pod: '' @ err, Code = 500\<rparr>\<rparr>"
  by (simp add: ServeHTTP_def toErrorResponse_def)

text \<open>
  The sanitizer alone is sound: a name it returns is empty or matches the pattern. Only
  the cut in claimFor can break the pattern.
\<close>

lemma replaceDashDash_all: "list_all P s \<Longrightarrow> list_all P (replaceDashDash s)"
  by (induction s rule: replaceDashDash.induct) auto

lemma collapseLoop_all: "list_all P s \<Longrightarrow> list_all P (collapseLoop s)"
proof (induction s rule: collapseLoop.induct)
  case (1 s)
  show ?case
  proof (cases "containsDashDash s")
    case True
    with 1 show ?thesis
      by (subst collapseLoop.simps) (simp add: replaceDashDash_all)
  next
    case False
    with 1 show ?thesis
      by (subst collapseLoop.simps) simp
  qed
qed

lemma nameChar_dash: "nameChar (CHR ''-'')"
  by (simp add: nameChar_def)

lemma nameReReplace_all: "list_all nameChar (nameReReplace s)"
  by (induction s) (simp_all add: nameReReplace_def nameChar_dash)

lemma set_dropWhile_subset: "set (dropWhile p xs) \<subseteq> set xs"
  by (auto dest: set_dropWhileD)

lemma trimDash_all:
  assumes "list_all P s"
  shows "list_all P (trimDash s)"
proof -
  let ?p = "\<lambda>c. c = CHR ''-''"
  have "set (dropWhile ?p (rev (dropWhile ?p s))) \<subseteq> set (rev (dropWhile ?p s))"
    by (rule set_dropWhile_subset)
  moreover have "set (rev (dropWhile ?p s)) \<subseteq> set s"
    using set_dropWhile_subset[of ?p s] by simp
  ultimately have "set (trimDash s) \<subseteq> set s"
    by (simp add: trimDash_def)
  with assms show ?thesis
    by (auto simp: list_all_iff)
qed

lemma last_dropWhile_nonempty: "dropWhile p xs \<noteq> [] \<Longrightarrow> last (dropWhile p xs) = last xs"
  by (induction xs) (auto split: if_splits)

lemma trimDash_ends:
  assumes "trimDash s \<noteq> []"
  shows "hd (trimDash s) \<noteq> CHR ''-'' \<and> last (trimDash s) \<noteq> CHR ''-''"
proof -
  let ?p = "\<lambda>c. c = CHR ''-''"
  let ?t = "dropWhile ?p s"
  let ?u = "dropWhile ?p (rev ?t)"
  have td: "trimDash s = rev ?u"
    by (simp only: trimDash_def)
  from assms have u: "?u \<noteq> []"
    unfolding td by simp
  have t: "?t \<noteq> []"
  proof
    assume a: "?t = []"
    from u show False unfolding a by simp
  qed
  have "last (trimDash s) = hd ?u"
    unfolding td by (rule last_rev)
  moreover have "\<not> ?p (hd ?u)"
    using u by (rule hd_dropWhile)
  ultimately have l: "last (trimDash s) \<noteq> CHR ''-''"
    by metis
  have "hd (trimDash s) = last ?u"
    unfolding td by (rule hd_rev)
  also have "\<dots> = last (rev ?t)"
    using u by (rule last_dropWhile_nonempty)
  also have "\<dots> = hd ?t"
    by (rule last_rev)
  finally have "hd (trimDash s) = hd ?t" .
  moreover have "\<not> ?p (hd ?t)"
    using t by (rule hd_dropWhile)
  ultimately have h: "hd (trimDash s) \<noteq> CHR ''-''"
    by metis
  from h l show ?thesis
    by (rule conjI)
qed

lemma nameChar_lowerAlnum: "nameChar c \<Longrightarrow> c \<noteq> CHR ''-'' \<Longrightarrow> lowerAlnum c"
  by (simp add: nameChar_def lowerAlnum_def Let_def)

lemma sanitize_valid:
  assumes "sanitize L s \<noteq> []"
  shows "matchesNameRegex (sanitize L s)"
proof -
  let ?t = "collapseLoop (nameReReplace (replaceAllChar (CHR ''_'') ''-'' (stringsToLower L s)))"
  have eq: "sanitize L s = trimDash ?t"
    by (simp add: sanitize_def Let_def)
  have all: "list_all nameChar (trimDash ?t)"
    by (intro trimDash_all collapseLoop_all nameReReplace_all)
  from assms eq have ne: "trimDash ?t \<noteq> []"
    by simp
  from trimDash_ends[OF ne] have ends: "hd (trimDash ?t) \<noteq> CHR ''-''" "last (trimDash ?t) \<noteq> CHR ''-''"
    by simp_all
  from ne all have "nameChar (hd (trimDash ?t))" "nameChar (last (trimDash ?t))"
    by (simp_all add: list_all_iff)
  with ends have "lowerAlnum (hd (trimDash ?t))" "lowerAlnum (last (trimDash ?t))"
    by (simp_all add: nameChar_lowerAlnum)
  with ne all show ?thesis
    unfolding eq matchesNameRegex_def by (cases "trimDash ?t") simp_all
qed

lemma claimFor_valid_without_cut:
  assumes "length (sanitize L (''pvc-'' @ ns @ ''-'' @ pn @ ''-'' @ vn)) \<le> 63"
    and "sanitize L (''pvc-'' @ ns @ ''-'' @ pn @ ''-'' @ vn) \<noteq> []"
  shows "matchesNameRegex (claimFor L ns pn vn)"
  using assms sanitize_valid[of L "''pvc-'' @ ns @ ''-'' @ pn @ ''-'' @ vn"]
  by (simp add: claimFor_def maxName_def Let_def)

text \<open>A response carries a patch only on the last path of ServeHTTP.\<close>

lemma ServeHTTP_patch:
  assumes "ServeHTTP L h body = Written resp" and "Patch resp = Some patchBytes"
  shows "\<exists>review rq pod opsL.
           jsonDecode L body = (None, review) \<and> Request review = Some rq \<and> Kind rq = ''Pod''
         \<and> deserDecode L (ObjectRaw rq) = Inr pod \<and> patchOps L h pod = Some opsL
         \<and> jsonMarshal L opsL = Inr patchBytes"
proof (cases "jsonDecode L body")
  case (Pair derr review)
  show ?thesis
  proof (cases derr)
    case (Some err)
    with Pair assms show ?thesis
      by (auto simp: ServeHTTP_def toErrorResponse_def split: option.splits)
  next
    case None
    note dn = this
    show ?thesis
    proof (cases "Request review")
      case None
      with Pair dn assms show ?thesis
        by (simp add: ServeHTTP_def allow_def)
    next
      case (Some rq)
      note rq = this
      show ?thesis
      proof (cases "Kind rq = ''Pod''")
        case False
        with Pair dn rq assms show ?thesis
          by (auto simp: ServeHTTP_def allow_def)
      next
        case True
        note kd = this
        show ?thesis
        proof (cases "deserDecode L (ObjectRaw rq)")
          case (Inl err)
          with Pair dn rq kd assms show ?thesis
            by (auto simp: ServeHTTP_def toErrorResponse_def)
        next
          case (Inr pod)
          with Pair dn rq kd assms show ?thesis
            by (auto simp: ServeHTTP_def allow_def toErrorResponse_def
                split: if_splits option.splits sum.splits)
        qed
      qed
    qed
  qed
qed

subsection \<open>Claims\<close>

text \<open>
  C1. The claim: the path of an annotation operation is the unescaped prefix
  /metadata/annotations/ followed by the escaped key. The code: pathEscape receives the
  whole path, so the separators of the prefix are escaped with the key; the path is
  a single reference token, /~1metadata~1annotations~1 followed by the escaped key, for
  every key. It is never the path the claim describes.
\<close>

theorem pathEscape_escapes_the_prefix:
  "pathEscape (''/metadata/annotations/'' @ k) =
     ''/~1metadata~1annotations~1'' @ escapeJSONPointer k
   \<and> pathEscape (''/metadata/annotations/'' @ k) \<noteq>
     ''/metadata/annotations/'' @ escapeJSONPointer k"
  unfolding pathEscape_annotation_key by simp

text \<open>
  C2. The claim: every failure to decode the body or the pod yields a response with
  allowed=false and a message, never a panic. The code: when the body does not decode
  and the decoder left the review without a request (a body that is not JSON, an empty
  body), toErrorResponse reads the UID of the nil request and ServeHTTP panics; no
  response is written.
\<close>

theorem body_decode_error_nil_request_panics:
  "jsonDecode L body = (Some err, review) \<Longrightarrow> Request review = None \<Longrightarrow>
   ServeHTTP L h body = Panic"
  by (simp add: ServeHTTP_def toErrorResponse_def)

theorem body_decode_error_nil_request_panics_witness:
  "jsonDecode exampleLibs ''not json'' = (Some ''invalid character'', \<lparr>Request = None\<rparr>)
   \<and> ServeHTTP exampleLibs exampleHandler ''not json'' = Panic"
proof -
  have d: "jsonDecode exampleLibs ''not json'' = (Some ''invalid character'', \<lparr>Request = None\<rparr>)"
    by code_simp
  have n: "Request \<lparr>Request = None\<rparr> = None"
    by simp
  from body_decode_error_nil_request_panics[OF d n] d show ?thesis
    by simp
qed

text \<open>
  C3. The claim: the sanitized name cut to 63 characters matches
  \<open>^[a-z0-9]([a-z0-9-]*[a-z0-9])?$\<close>; a hyphen left at the end by the cut is stripped.
  The code: sanitize trims hyphens before the cut and nothing trims after it. For a
  namespace of 58 letters a, the pod p and the volume v, the 63rd character of the
  sanitized name is the hyphen after the namespace, and the claim name ends with it.
  (Without the cut the name is valid: sanitize_valid, claimFor_valid_without_cut.)
\<close>

theorem claimFor_cut_leaves_trailing_hyphen:
  "claimFor L (replicate 58 (CHR ''a'')) ''p'' ''v'' = ''pvc-'' @ replicate 58 (CHR ''a'') @ ''-''
   \<and> \<not> matchesNameRegex (claimFor L (replicate 58 (CHR ''a'')) ''p'' ''v'')"
  by code_simp

text \<open>
  C7. A request of kind Pod whose pod has an annotation map with pvc-webhook/converted
  set to "true" is answered with the plain allow response: the UID of the request,
  allowed, and no patch, whatever the volumes and the rest of the pod are.
\<close>

theorem converted_pod_allowed_without_patch:
  assumes "jsonDecode L body = (None, review)"
    and "Request review = Some rq"
    and "Kind rq = ''Pod''"
    and "deserDecode L (ObjectRaw rq) = Inr pod"
    and "Annotations pod = Some m"
    and "m ''pvc-webhook/converted'' = Some ''true''"
  shows "ServeHTTP L h body =
           Written \<lparr>RespUID = UID rq, Allowed = True, Patch = None, PatchType = None,
                    Result = None\<rparr>"
  using assms by (simp add: ServeHTTP_def allow_def annoGet_def convertedAnno_def)

theorem converted_pod_allowed_without_patch_witness:
  "deserDecode exampleLibs ''web-0-converted'' = Inr web0Converted
   \<and> Annotations web0Converted = Some [''pvc-webhook/converted'' \<mapsto> ''true'']
   \<and> Volumes web0Converted \<noteq> []
   \<and> ServeHTTP exampleLibs exampleHandler ''web-0-converted'' =
       Written \<lparr>RespUID = ''uid-1'', Allowed = True, Patch = None, PatchType = None,
                Result = None\<rparr>"
proof -
  let ?rq = "\<lparr>UID = ''uid-1'', Kind = ''Pod'', ObjectRaw = ''web-0-converted''\<rparr>"
  have d: "jsonDecode exampleLibs ''web-0-converted'' = (None, \<lparr>Request = Some ?rq\<rparr>)"
    by code_simp
  have r: "Request \<lparr>Request = Some ?rq\<rparr> = Some ?rq"
    by simp
  have k: "Kind ?rq = ''Pod''"
    by simp
  have p: "deserDecode exampleLibs (ObjectRaw ?rq) = Inr web0Converted"
    by (simp add: exampleLibs_def)
  have a: "Annotations web0Converted = Some [''pvc-webhook/converted'' \<mapsto> ''true'']"
    by (simp add: web0Converted_def)
  have m: "[''pvc-webhook/converted'' \<mapsto> ''true''] ''pvc-webhook/converted'' = Some ''true''"
    by simp
  have v: "Volumes web0Converted \<noteq> []"
    by (simp add: web0Converted_def web0_def)
  from converted_pod_allowed_without_patch[OF d r k p a m, of exampleHandler] p a v
  show ?thesis by simp
qed

text \<open>
  C8. Every patch document that ServeHTTP writes is json.Marshal of a list of
  operations that is, in this order: one operation with op "replace" per emptyDir
  volume, at the path /spec/volumes/j for the volume's index j in the pod's volume
  list, the indices increasing; one operation with op "add", path
  /metadata/annotations and an empty map as value when the pod had no annotation map
  (and nothing in its place otherwise); operations with op "add" for annotation keys
  (their paths as pathEscape writes them, see C1); and last the operation with op "add"
  for the key pvc-webhook/converted with the value "true".
\<close>

theorem patch_operations_order:
  assumes "ServeHTTP L h body = Written resp" and "Patch resp = Some patchBytes"
  shows "\<exists>review rq pod annos.
           jsonDecode L body = (None, review) \<and> Request review = Some rq
         \<and> deserDecode L (ObjectRaw rq) = Inr pod
         \<and> jsonMarshal L
             (map (\<lambda>(j, v).
                     \<lparr>Op = ''replace'', Path = ''/spec/volumes/'' @ showNat j,
                      Value = JVolume
                        \<lparr>VolumeName = VolumeName v, EmptyDir = None,
                         PersistentVolumeClaim =
                           Some (claimFor L (Namespace pod) (Name pod) (VolumeName v))\<rparr>\<rparr>)
                (filter (\<lambda>(j, v). EmptyDir v \<noteq> None) (List.enumerate 0 (Volumes pod)))
              @ (if Annotations pod = None
                 then [\<lparr>Op = ''add'', Path = ''/metadata/annotations'', Value = JStringMap []\<rparr>]
                 else [])
              @ map (\<lambda>(k, v).
                       \<lparr>Op = ''add'',
                        Path = ''/~1metadata~1annotations~1'' @ escapeJSONPointer k,
                        Value = JString v\<rparr>)
                  annos
              @ [\<lparr>Op = ''add'', Path = ''/~1metadata~1annotations~1pvc-webhook~1converted'',
                  Value = JString ''true''\<rparr>]) = Inr patchBytes
         \<and> sorted_wrt (<)
             (map fst (filter (\<lambda>(j, v). EmptyDir v \<noteq> None) (List.enumerate 0 (Volumes pod))))
         \<and> list_all (\<lambda>(j, v). j < length (Volumes pod) \<and> Volumes pod ! j = v)
             (filter (\<lambda>(j, v). EmptyDir v \<noteq> None) (List.enumerate 0 (Volumes pod)))"
proof -
  from ServeHTTP_patch[OF assms] obtain review rq pod opsL where
    f: "jsonDecode L body = (None, review)" "Request review = Some rq"
       "deserDecode L (ObjectRaw rq) = Inr pod" "patchOps L h pod = Some opsL"
       "jsonMarshal L opsL = Inr patchBytes"
    by blast
  from patchOps_shape[OF f(4)] obtain annos where
    s0: "opsL =
       map (\<lambda>(j, v). replaceOp (''/spec/volumes/'' @ showNat j) (JVolume (newVolume L pod v)))
         (emptyDirVolumes 0 (Volumes pod))
       @ (if Annotations pod = None then [addOp ''/metadata/annotations'' (JStringMap [])]
          else [])
       @ map (\<lambda>(k, v). addOp (pathEscape (''/metadata/annotations/'' @ k)) (JString v)) annos
       @ [addOp (pathEscape ''/metadata/annotations/pvc-webhook/converted'') (JString ''true'')]"
    by blast
  have m: "pathEscape ''/metadata/annotations/pvc-webhook/converted'' =
      ''/~1metadata~1annotations~1pvc-webhook~1converted''"
    by code_simp
  have shape: "opsL =
       map (\<lambda>(j, v).
              \<lparr>Op = ''replace'', Path = ''/spec/volumes/'' @ showNat j,
               Value = JVolume
                 \<lparr>VolumeName = VolumeName v, EmptyDir = None,
                  PersistentVolumeClaim =
                    Some (claimFor L (Namespace pod) (Name pod) (VolumeName v))\<rparr>\<rparr>)
         (filter (\<lambda>(j, v). EmptyDir v \<noteq> None) (List.enumerate 0 (Volumes pod)))
       @ (if Annotations pod = None
          then [\<lparr>Op = ''add'', Path = ''/metadata/annotations'', Value = JStringMap []\<rparr>]
          else [])
       @ map (\<lambda>(k, v).
                \<lparr>Op = ''add'',
                 Path = ''/~1metadata~1annotations~1'' @ escapeJSONPointer k,
                 Value = JString v\<rparr>)
           annos
       @ [\<lparr>Op = ''add'', Path = ''/~1metadata~1annotations~1pvc-webhook~1converted'',
           Value = JString ''true''\<rparr>]"
    unfolding s0 m pathEscape_annotation_key addOp_def replaceOp_def newVolume_def
      emptyDirVolumes_def
    by simp
  have sorted: "sorted_wrt (<)
      (map fst (filter (\<lambda>(j, v). EmptyDir v \<noteq> None) (List.enumerate 0 (Volumes pod))))"
    using emptyDirVolumes_sorted[of 0 "Volumes pod"] by (simp add: emptyDirVolumes_def)
  have idx: "list_all (\<lambda>(j, v). j < length (Volumes pod) \<and> Volumes pod ! j = v)
      (filter (\<lambda>(j, v). EmptyDir v \<noteq> None) (List.enumerate 0 (Volumes pod)))"
    by (auto simp: list_all_iff in_set_enumerate_eq)
  from f(1,2,3) f(5)[unfolded shape] sorted idx show ?thesis
    by blast
qed

theorem patch_operations_order_witness:
  "ServeHTTP exampleLibs exampleHandler ''web-1'' =
     Written
       \<lparr>RespUID = ''uid-1'', Allowed = True,
        Patch = Some (renderOps
          [\<lparr>Op = ''replace'', Path = ''/spec/volumes/0'',
            Value = JVolume \<lparr>VolumeName = ''data'', EmptyDir = None,
                             PersistentVolumeClaim = Some ''pvc-ns1-web-1-data''\<rparr>\<rparr>,
           \<lparr>Op = ''replace'', Path = ''/spec/volumes/2'',
            Value = JVolume \<lparr>VolumeName = ''cache'', EmptyDir = None,
                             PersistentVolumeClaim = Some ''pvc-ns1-web-1-cache''\<rparr>\<rparr>,
           \<lparr>Op = ''add'', Path = ''/metadata/annotations'', Value = JStringMap []\<rparr>,
           \<lparr>Op = ''add'',
            Path = ''/~1metadata~1annotations~1pvc-webhook.vol~1cache.claimName'',
            Value = JString ''pvc-ns1-web-1-cache''\<rparr>,
           \<lparr>Op = ''add'',
            Path = ''/~1metadata~1annotations~1pvc-webhook.vol~1cache.accessModes'',
            Value = JString ''ReadWriteOnce''\<rparr>,
           \<lparr>Op = ''add'',
            Path = ''/~1metadata~1annotations~1pvc-webhook.vol~1cache.storageClass'',
            Value = JString ''standard''\<rparr>,
           \<lparr>Op = ''add'',
            Path = ''/~1metadata~1annotations~1pvc-webhook.vol~1cache.size'',
            Value = JString ''10Gi''\<rparr>,
           \<lparr>Op = ''add'',
            Path = ''/~1metadata~1annotations~1pvc-webhook.vol~1data.claimName'',
            Value = JString ''pvc-ns1-web-1-data''\<rparr>,
           \<lparr>Op = ''add'',
            Path = ''/~1metadata~1annotations~1pvc-webhook.vol~1data.accessModes'',
            Value = JString ''ReadWriteOnce''\<rparr>,
           \<lparr>Op = ''add'',
            Path = ''/~1metadata~1annotations~1pvc-webhook.vol~1data.storageClass'',
            Value = JString ''standard''\<rparr>,
           \<lparr>Op = ''add'',
            Path = ''/~1metadata~1annotations~1pvc-webhook.vol~1data.size'',
            Value = JString ''10Gi''\<rparr>,
           \<lparr>Op = ''add'', Path = ''/~1metadata~1annotations~1pvc-webhook~1converted'',
            Value = JString ''true''\<rparr>]),
        PatchType = Some ''JSONPatch'',
        Result = Some \<lparr>Message = ''converted emptyDir to PVC'', Code = 0\<rparr>\<rparr>
   \<and> filter (\<lambda>(j, v). EmptyDir v \<noteq> None) (List.enumerate 0 (Volumes web1)) =
       [(0, \<lparr>VolumeName = ''data'', EmptyDir = Some (EmptyDirVolumeSource ''''),
             PersistentVolumeClaim = None\<rparr>),
        (2, \<lparr>VolumeName = ''cache'', EmptyDir = Some (EmptyDirVolumeSource ''Memory''),
             PersistentVolumeClaim = None\<rparr>)]
   \<and> (\<exists>annos.
         jsonMarshal exampleLibs
           ([\<lparr>Op = ''replace'', Path = ''/spec/volumes/'' @ showNat 0,
              Value = JVolume
                \<lparr>VolumeName = ''data'', EmptyDir = None,
                 PersistentVolumeClaim = Some (claimFor exampleLibs ''ns1'' ''web-1'' ''data'')\<rparr>\<rparr>,
             \<lparr>Op = ''replace'', Path = ''/spec/volumes/'' @ showNat 2,
              Value = JVolume
                \<lparr>VolumeName = ''cache'', EmptyDir = None,
                 PersistentVolumeClaim = Some (claimFor exampleLibs ''ns1'' ''web-1'' ''cache'')\<rparr>\<rparr>]
            @ [\<lparr>Op = ''add'', Path = ''/metadata/annotations'', Value = JStringMap []\<rparr>]
            @ map (\<lambda>(k, v).
                     \<lparr>Op = ''add'',
                      Path = ''/~1metadata~1annotations~1'' @ escapeJSONPointer k,
                      Value = JString v\<rparr>)
                annos
            @ [\<lparr>Op = ''add'', Path = ''/~1metadata~1annotations~1pvc-webhook~1converted'',
                Value = JString ''true''\<rparr>]) =
           Inr (renderOps (the (patchOps exampleLibs exampleHandler web1))))"
proof -
  let ?ops = "the (patchOps exampleLibs exampleHandler web1)"
  let ?resp = "\<lparr>RespUID = ''uid-1'', Allowed = True, Patch = Some (renderOps ?ops),
                PatchType = Some ''JSONPatch'',
                Result = Some \<lparr>Message = ''converted emptyDir to PVC'', Code = 0\<rparr>\<rparr>"
  have e: "ServeHTTP exampleLibs exampleHandler ''web-1'' = Written ?resp"
    by code_simp
  have p: "Patch ?resp = Some (renderOps ?ops)"
    by simp
  have o: "?ops =
     [\<lparr>Op = ''replace'', Path = ''/spec/volumes/0'',
       Value = JVolume \<lparr>VolumeName = ''data'', EmptyDir = None,
                        PersistentVolumeClaim = Some ''pvc-ns1-web-1-data''\<rparr>\<rparr>,
      \<lparr>Op = ''replace'', Path = ''/spec/volumes/2'',
       Value = JVolume \<lparr>VolumeName = ''cache'', EmptyDir = None,
                        PersistentVolumeClaim = Some ''pvc-ns1-web-1-cache''\<rparr>\<rparr>,
      \<lparr>Op = ''add'', Path = ''/metadata/annotations'', Value = JStringMap []\<rparr>,
      \<lparr>Op = ''add'',
       Path = ''/~1metadata~1annotations~1pvc-webhook.vol~1cache.claimName'',
       Value = JString ''pvc-ns1-web-1-cache''\<rparr>,
      \<lparr>Op = ''add'',
       Path = ''/~1metadata~1annotations~1pvc-webhook.vol~1cache.accessModes'',
       Value = JString ''ReadWriteOnce''\<rparr>,
      \<lparr>Op = ''add'',
       Path = ''/~1metadata~1annotations~1pvc-webhook.vol~1cache.storageClass'',
       Value = JString ''standard''\<rparr>,
      \<lparr>Op = ''add'',
       Path = ''/~1metadata~1annotations~1pvc-webhook.vol~1cache.size'',
       Value = JString ''10Gi''\<rparr>,
      \<lparr>Op = ''add'',
       Path = ''/~1metadata~1annotations~1pvc-webhook.vol~1data.claimName'',
       Value = JString ''pvc-ns1-web-1-data''\<rparr>,
      \<lparr>Op = ''add'',
       Path = ''/~1metadata~1annotations~1pvc-webhook.vol~1data.accessModes'',
       Value = JString ''ReadWriteOnce''\<rparr>,
      \<lparr>Op = ''add'',
       Path = ''/~1metadata~1annotations~1pvc-webhook.vol~1data.storageClass'',
       Value = JString ''standard''\<rparr>,
      \<lparr>Op = ''add'',
       Path = ''/~1metadata~1annotations~1pvc-webhook.vol~1data.size'',
       Value = JString ''10Gi''\<rparr>,
      \<lparr>Op = ''add'', Path = ''/~1metadata~1annotations~1pvc-webhook~1converted'',
       Value = JString ''true''\<rparr>]"
    by code_simp
  have d: "jsonDecode exampleLibs ''web-1'' =
             (None, \<lparr>Request = Some \<lparr>UID = ''uid-1'', Kind = ''Pod'', ObjectRaw = ''web-1''\<rparr>\<rparr>)"
    by code_simp
  have w1: "deserDecode exampleLibs ''web-1'' = Inr web1"
    by (simp add: exampleLibs_def)
  have vols: "filter (\<lambda>(j, v). EmptyDir v \<noteq> None) (List.enumerate 0 (Volumes web1)) =
       [(0, \<lparr>VolumeName = ''data'', EmptyDir = Some (EmptyDirVolumeSource ''''),
             PersistentVolumeClaim = None\<rparr>),
        (2, \<lparr>VolumeName = ''cache'', EmptyDir = Some (EmptyDirVolumeSource ''Memory''),
             PersistentVolumeClaim = None\<rparr>)]"
    by code_simp
  have meta: "Annotations web1 = None" "Namespace web1 = ''ns1''" "Name web1 = ''web-1''"
    by (simp_all add: web1_def)
  from patch_operations_order[OF e p] obtain review rq pod annos where
    w: "jsonDecode exampleLibs ''web-1'' = (None, review)" "Request review = Some rq"
       "deserDecode exampleLibs (ObjectRaw rq) = Inr pod"
       "jsonMarshal exampleLibs
          (map (\<lambda>(j, v).
                  \<lparr>Op = ''replace'', Path = ''/spec/volumes/'' @ showNat j,
                   Value = JVolume
                     \<lparr>VolumeName = VolumeName v, EmptyDir = None,
                      PersistentVolumeClaim =
                        Some (claimFor exampleLibs (Namespace pod) (Name pod) (VolumeName v))\<rparr>\<rparr>)
             (filter (\<lambda>(j, v). EmptyDir v \<noteq> None) (List.enumerate 0 (Volumes pod)))
           @ (if Annotations pod = None
              then [\<lparr>Op = ''add'', Path = ''/metadata/annotations'', Value = JStringMap []\<rparr>]
              else [])
           @ map (\<lambda>(k, v).
                    \<lparr>Op = ''add'',
                     Path = ''/~1metadata~1annotations~1'' @ escapeJSONPointer k,
                     Value = JString v\<rparr>)
               annos
           @ [\<lparr>Op = ''add'', Path = ''/~1metadata~1annotations~1pvc-webhook~1converted'',
               Value = JString ''true''\<rparr>]) = Inr (renderOps ?ops)"
    by blast
  from w(1,2) d have "ObjectRaw rq = ''web-1''"
    by auto
  with w(3) w1 have pod: "pod = web1"
    by simp
  from w(4) have "\<exists>annos.
         jsonMarshal exampleLibs
           ([\<lparr>Op = ''replace'', Path = ''/spec/volumes/'' @ showNat 0,
              Value = JVolume
                \<lparr>VolumeName = ''data'', EmptyDir = None,
                 PersistentVolumeClaim = Some (claimFor exampleLibs ''ns1'' ''web-1'' ''data'')\<rparr>\<rparr>,
             \<lparr>Op = ''replace'', Path = ''/spec/volumes/'' @ showNat 2,
              Value = JVolume
                \<lparr>VolumeName = ''cache'', EmptyDir = None,
                 PersistentVolumeClaim = Some (claimFor exampleLibs ''ns1'' ''web-1'' ''cache'')\<rparr>\<rparr>]
            @ [\<lparr>Op = ''add'', Path = ''/metadata/annotations'', Value = JStringMap []\<rparr>]
            @ map (\<lambda>(k, v).
                     \<lparr>Op = ''add'',
                      Path = ''/~1metadata~1annotations~1'' @ escapeJSONPointer k,
                      Value = JString v\<rparr>)
                annos
            @ [\<lparr>Op = ''add'', Path = ''/~1metadata~1annotations~1pvc-webhook~1converted'',
                Value = JString ''true''\<rparr>]) =
           Inr (renderOps ?ops)"
    unfolding pod vols meta by (intro exI[of _ annos]) simp
  with e vols show ?thesis
    unfolding o by blast
qed

text \<open>
  C9. The claim name written into a replaced volume is claimFor of the namespace, the
  pod name and the volume name, and of nothing else: two runs of the engine, with any
  handlers, any other pod contents and any map order, write the same claim name for
  volumes of the same name in pods of the same namespace and name.
\<close>

theorem claim_name_deterministic:
  assumes "patchOps L1 h1 p1 = Some ops1"
    and "patchOps L2 h2 p2 = Some ops2"
    and "unicodeToLower L1 = unicodeToLower L2"
    and "Namespace p1 = Namespace p2"
    and "Name p1 = Name p2"
    and "x1 \<in> set ops1" and "Value x1 = JVolume v1"
    and "x2 \<in> set ops2" and "Value x2 = JVolume v2"
    and "VolumeName v1 = VolumeName v2"
  shows "PersistentVolumeClaim v1 = PersistentVolumeClaim v2
       \<and> PersistentVolumeClaim v1 =
           Some (claimFor L1 (Namespace p1) (Name p1) (VolumeName v1))"
  using patchOps_volume_values[OF assms(1) assms(6) assms(7)]
    patchOps_volume_values[OF assms(2) assms(8) assms(9)]
    claimFor_libs[OF assms(3)] assms(4,5,10)
  by simp

theorem claim_name_deterministic_witness:
  "PersistentVolumeClaim
     \<lparr>VolumeName = ''data'', EmptyDir = None,
      PersistentVolumeClaim = Some ''pvc-ns1-web-0-data''\<rparr> =
   Some (claimFor exampleLibs (Namespace web0) (Name web0) ''data'')
   \<and> replaceOp ''/spec/volumes/0''
        (JVolume \<lparr>VolumeName = ''data'', EmptyDir = None,
                  PersistentVolumeClaim = Some ''pvc-ns1-web-0-data''\<rparr>)
      \<in> set (the (patchOps exampleLibs exampleHandler web0))
   \<and> replaceOp ''/spec/volumes/1''
        (JVolume \<lparr>VolumeName = ''data'', EmptyDir = None,
                  PersistentVolumeClaim = Some ''pvc-ns1-web-0-data''\<rparr>)
      \<in> set (the (patchOps (exampleLibs\<lparr>mapRange := (\<lambda>xs. xs)\<rparr>) otherHandler web0Mixed))"
proof -
  let ?v = "\<lparr>VolumeName = ''data'', EmptyDir = None,
             PersistentVolumeClaim = Some ''pvc-ns1-web-0-data''\<rparr>"
  let ?x1 = "replaceOp ''/spec/volumes/0'' (JVolume ?v)"
  let ?x2 = "replaceOp ''/spec/volumes/1'' (JVolume ?v)"
  let ?L2 = "exampleLibs\<lparr>mapRange := (\<lambda>xs. xs)\<rparr>"
  let ?ops1 = "the (patchOps exampleLibs exampleHandler web0)"
  let ?ops2 = "the (patchOps ?L2 otherHandler web0Mixed)"
  have e1: "patchOps exampleLibs exampleHandler web0 = Some ?ops1"
    by code_simp
  have e2: "patchOps ?L2 otherHandler web0Mixed = Some ?ops2"
    by code_simp
  have u: "unicodeToLower exampleLibs = unicodeToLower ?L2"
    by simp
  have ns: "Namespace web0 = Namespace web0Mixed"
    by (simp add: web0Mixed_def)
  have nm: "Name web0 = Name web0Mixed"
    by (simp add: web0Mixed_def)
  have m1: "?x1 \<in> set ?ops1"
    by code_simp
  have m2: "?x2 \<in> set ?ops2"
    by code_simp
  have v1: "Value ?x1 = JVolume ?v"
    by (simp add: replaceOp_def)
  have v2: "Value ?x2 = JVolume ?v"
    by (simp add: replaceOp_def)
  from claim_name_deterministic[OF e1 e2 u ns nm m1 v1 m2 v2] m1 m2 show ?thesis
    by simp
qed

text \<open>
  C10. allow and toErrorResponse read the UID through the request pointer. A body that
  decodes to a review without a request takes the branch of line 62, which calls allow:
  the handler panics and writes no response.
\<close>

theorem nil_request_panics:
  "jsonDecode L body = (None, review) \<Longrightarrow> Request review = None \<Longrightarrow>
   allow review = Panic \<and> toErrorResponse review e = Panic \<and> ServeHTTP L h body = Panic"
  by (simp add: ServeHTTP_def allow_def toErrorResponse_def)

theorem nil_request_panics_witness:
  "jsonDecode exampleLibs ''{}'' = (None, \<lparr>Request = None\<rparr>)
   \<and> allow \<lparr>Request = None\<rparr> = Panic
   \<and> toErrorResponse \<lparr>Request = None\<rparr> ''decode pod'' = Panic
   \<and> ServeHTTP exampleLibs exampleHandler ''{}'' = Panic"
proof -
  have d: "jsonDecode exampleLibs ''{}'' = (None, \<lparr>Request = None\<rparr>)"
    by code_simp
  have n: "Request \<lparr>Request = None\<rparr> = None"
    by simp
  from nil_request_panics[OF d n, of "''decode pod''" exampleHandler] d show ?thesis
    by simp
qed

section \<open>Properties of the reconcilers\<close>

subsection \<open>Helper lemmas\<close>

lemma deleteRequests_simps:
  "deleteRequests (Returned evs res err) = List.map_filter deletedPVC evs"
  "deleteRequests (Panicked evs) = List.map_filter deletedPVC evs"
  by (simp_all add: deleteRequests_def)

lemma PersistentVolumeClaimReconciler_create_deletes:
  "deleteRequests (PersistentVolumeClaimReconciler_create C r pod cn sc evs qty) =
     List.map_filter deletedPVC evs"
  by (simp add: PersistentVolumeClaimReconciler_create_def Let_def deleteRequests_simps
      List.map_filter_def split: option.splits)

lemma PersistentVolumeClaimReconciler_no_delete:
  "deleteRequests (PersistentVolumeClaimReconciler_Reconcile C r req) = []"
  by (simp add: PersistentVolumeClaimReconciler_Reconcile_def Let_def deleteRequests_simps
      PersistentVolumeClaimReconciler_create_deletes List.map_filter_def
      split: sum.splits)

lemma PersistentVolumeClaimReconciler_create_failure:
  "createPVC C pvc = Some e \<Longrightarrow> CreateReq pvc \<notin> set evs \<Longrightarrow>
   CreateReq pvc \<in> set (events (PersistentVolumeClaimReconciler_create C r pod cn sc evs qty)) \<longrightarrow>
   PersistentVolumeClaimReconciler_create C r pod cn sc evs qty =
     Returned (evs @ [CreateReq pvc]) 0 (Some e)"
  by (auto simp: PersistentVolumeClaimReconciler_create_def Let_def split: option.splits)

lemma PersistentVolumeClaimReconciler_create_returned:
  "createPVC C pvc = Some e \<Longrightarrow>
   CreateReq pvc \<in> set (events (PersistentVolumeClaimReconciler_Reconcile C r req)) \<longrightarrow>
   (\<exists>evs. PersistentVolumeClaimReconciler_Reconcile C r req =
           Returned (evs @ [CreateReq pvc]) 0 (Some e))"
  by (auto simp: PersistentVolumeClaimReconciler_Reconcile_def Let_def
      PersistentVolumeClaimReconciler_create_failure
      split: sum.splits)

lemma PVCReconciler_ensure_failure:
  "createPVC C pvc = Some e \<Longrightarrow>
   CreateReq pvc \<in> set (events (PVCReconciler_ensure C r req pod cn q)) \<longrightarrow>
   (\<exists>evs. PVCReconciler_ensure C r req pod cn q = Returned (evs @ [CreateReq pvc]) 0 (Some e))"
  by (auto simp: PVCReconciler_ensure_def Let_def split: sum.splits option.splits)

lemma PVCReconciler_cleanup_creates:
  "CreateReq pvc \<notin> set (events (PVCReconciler_cleanup C req pod cn))"
  by (simp add: PVCReconciler_cleanup_def Let_def split: sum.splits option.splits)

lemma PVCReconciler_create_returned:
  "createPVC C pvc = Some e \<Longrightarrow>
   CreateReq pvc \<in> set (events (PVCReconciler_Reconcile C r req)) \<longrightarrow>
   (\<exists>evs. PVCReconciler_Reconcile C r req = Returned (evs @ [CreateReq pvc]) 0 (Some e))"
  by (auto simp: PVCReconciler_Reconcile_def Let_def PVCReconciler_ensure_failure
      PVCReconciler_cleanup_creates split: sum.splits)

subsection \<open>Claims\<close>

text \<open>
  C4, as amended. A pod that is not being deleted has a claim annotation and a size
  annotation that is not empty and does not parse; the claim does not exist yet.
  PVCReconciler logs the error and returns the empty result with no error, having asked
  the cluster for nothing but the pod. PersistentVolumeClaimReconciler logs the error
  too, then creates the claim with the size 2Gi in place of the annotation's.
\<close>

theorem unparseable_size_outcomes:
  assumes "getPod C req = Inr pod"
    and "annoGet pod ''pvc-webhook/claim'' \<noteq> ''''"
    and "timeIsZero (DeletionTimestamp pod)"
    and "annoGet pod ''pvc-webhook/storage-size'' \<noteq> ''''"
    and "parseQuantity C (annoGet pod ''pvc-webhook/storage-size'') = Inl perr"
    and "getPVC C (Namespace pod, annoGet pod ''pvc-webhook/claim'') = Inl e"
    and "IsNotFound e"
    and "parseQuantity C ''2Gi'' = Inr q2"
  shows "PVCReconciler_Reconcile C r req =
           Returned [GetPodReq req, LogError ''invalid storage size''] 0 None
       \<and> createRequests (PersistentVolumeClaimReconciler_Reconcile C r' req) =
           [\<lparr>PVCName = annoGet pod ''pvc-webhook/claim'', PVCNamespace = Namespace pod,
             Labels = [(''created-by'', ''pvc-webhook''), (''pod'', Name pod)],
             OwnerReferences = [NewControllerRef pod],
             AccessModes = [''ReadWriteOnce''],
             StorageRequest = q2,
             StorageClassName =
               (if annoGet pod ''pvc-webhook/storage-class'' \<noteq> ''''
                then Some (annoGet pod ''pvc-webhook/storage-class'') else None),
             Phase = ''''\<rparr>]
       \<and> LogError ''Invalid storage-size annotation, defaulting to 2Gi''
           \<in> set (events (PersistentVolumeClaimReconciler_Reconcile C r' req))"
  using assms
  by (auto simp: PVCReconciler_Reconcile_def PersistentVolumeClaimReconciler_Reconcile_def
      PersistentVolumeClaimReconciler_create_def createRequests_def List.map_filter_simps Let_def
      split: option.splits)

theorem unparseable_size_outcomes_witness:
  "getPod (exampleCluster (claimedPod ''lots'' None) (Inl notFound) None) (''ns1'', ''web-0'') =
     Inr (claimedPod ''lots'' None)
   \<and> annoGet (claimedPod ''lots'' None) ''pvc-webhook/storage-size'' = ''lots''
   \<and> PVCReconciler_Reconcile (exampleCluster (claimedPod ''lots'' None) (Inl notFound) None)
       examplePVCReconciler (''ns1'', ''web-0'') =
       Returned [GetPodReq (''ns1'', ''web-0''), LogError ''invalid storage size''] 0 None
   \<and> createRequests (PersistentVolumeClaimReconciler_Reconcile
         (exampleCluster (claimedPod ''lots'' None) (Inl notFound) None)
         \<lparr>RecorderSet = True\<rparr> (''ns1'', ''web-0'')) =
       [\<lparr>PVCName = ''pvc-x'', PVCNamespace = ''ns1'',
         Labels = [(''created-by'', ''pvc-webhook''), (''pod'', ''web-0'')],
         OwnerReferences = [NewControllerRef (claimedPod ''lots'' None)],
         AccessModes = [''ReadWriteOnce''],
         StorageRequest = Quantity 2 ''Gi'',
         StorageClassName = None,
         Phase = ''''\<rparr>]
   \<and> LogError ''Invalid storage-size annotation, defaulting to 2Gi''
       \<in> set (events (PersistentVolumeClaimReconciler_Reconcile
            (exampleCluster (claimedPod ''lots'' None) (Inl notFound) None)
            \<lparr>RecorderSet = True\<rparr> (''ns1'', ''web-0'')))"
proof -
  let ?pod = "claimedPod ''lots'' None"
  let ?C = "exampleCluster ?pod (Inl notFound) None"
  have g: "getPod ?C (''ns1'', ''web-0'') = Inr ?pod"
    by (simp add: exampleCluster_def claimedPod_def)
  have cl: "annoGet ?pod ''pvc-webhook/claim'' = ''pvc-x''"
    by (simp add: annoGet_def claimedPod_def)
  have sz: "annoGet ?pod ''pvc-webhook/storage-size'' = ''lots''"
    by (simp add: annoGet_def claimedPod_def)
  have sc: "annoGet ?pod ''pvc-webhook/storage-class'' = ''''"
    by (simp add: annoGet_def claimedPod_def)
  have a2: "annoGet ?pod ''pvc-webhook/claim'' \<noteq> ''''"
    by (simp add: cl)
  have a3: "timeIsZero (DeletionTimestamp ?pod)"
    by (simp add: timeIsZero_def claimedPod_def)
  have a4: "annoGet ?pod ''pvc-webhook/storage-size'' \<noteq> ''''"
    by (simp add: sz)
  have a5: "parseQuantity ?C (annoGet ?pod ''pvc-webhook/storage-size'') =
              Inl ''quantities must match the regular expression''"
    by (simp add: sz exampleCluster_def exampleParse_def)
  have a6: "getPVC ?C (Namespace ?pod, annoGet ?pod ''pvc-webhook/claim'') = Inl notFound"
    by (simp add: exampleCluster_def)
  have a7: "IsNotFound notFound"
    by (simp add: IsNotFound_def notFound_def)
  have a8: "parseQuantity ?C ''2Gi'' = Inr (Quantity 2 ''Gi'')"
    by (simp add: exampleCluster_def exampleParse_def)
  have ns: "Namespace ?pod = ''ns1''" and nm: "Name ?pod = ''web-0''"
    by (simp_all add: claimedPod_def)
  from unparseable_size_outcomes[OF g a2 a3 a4 a5 a6 a7 a8,
      of examplePVCReconciler "\<lparr>RecorderSet = True\<rparr>"] g sz
  show ?thesis
    by (simp add: cl sc ns nm)
qed

text \<open>
  C4 as stated fails on PersistentVolumeClaimReconciler: the pod has the claim
  annotation pvc-x and the size annotation "lots", no claim exists, and the pass creates
  pvc-x with 2Gi.
\<close>

theorem unparseable_size_counterexample:
  "annoGet (claimedPod ''lots'' None) ''pvc-webhook/claim'' = ''pvc-x''
   \<and> annoGet (claimedPod ''lots'' None) ''pvc-webhook/storage-size'' = ''lots''
   \<and> parseQuantity (exampleCluster (claimedPod ''lots'' None) (Inl notFound) None) ''lots'' =
       Inl ''quantities must match the regular expression''
   \<and> getPVC (exampleCluster (claimedPod ''lots'' None) (Inl notFound) None) (''ns1'', ''pvc-x'') =
       Inl notFound
   \<and> PersistentVolumeClaimReconciler_Reconcile
       (exampleCluster (claimedPod ''lots'' None) (Inl notFound) None)
       \<lparr>RecorderSet = False\<rparr> (''ns1'', ''web-0'') =
     Returned
       [GetPodReq (''ns1'', ''web-0''), GetPVCReq (''ns1'', ''pvc-x''),
        LogError ''Invalid storage-size annotation, defaulting to 2Gi'',
        CreateReq
          \<lparr>PVCName = ''pvc-x'', PVCNamespace = ''ns1'',
           Labels = [(''created-by'', ''pvc-webhook''), (''pod'', ''web-0'')],
           OwnerReferences =
             [\<lparr>OwnerKind = ''Pod'', OwnerName = ''web-0'', OwnerUID = ''uid-web-0'',
               Controller = True, BlockOwnerDeletion = True\<rparr>],
           AccessModes = [''ReadWriteOnce''],
           StorageRequest = Quantity 2 ''Gi'',
           StorageClassName = None,
           Phase = ''''\<rparr>,
        LogInfo ''Created PVC for Pod'']
       5 None"
  by code_simp

text \<open>
  C5, as amended. Whenever a pass of either reconciler issues a create request and the
  request fails, with the reason already-exists or any other, the pass ends there and
  returns that error with the empty result: no reconciler looks at the reason of a
  create error.
\<close>

theorem create_error_is_returned:
  assumes "out = PVCReconciler_Reconcile C r1 req \<or>
           out = PersistentVolumeClaimReconciler_Reconcile C r2 req"
    and "CreateReq pvc \<in> set (events out)"
    and "createPVC C pvc = Some e"
  shows "\<exists>evs. out = Returned (evs @ [CreateReq pvc]) 0 (Some e)"
  using assms PVCReconciler_create_returned PersistentVolumeClaimReconciler_create_returned
  by blast

theorem create_error_is_returned_witness:
  "createPVC (exampleCluster (claimedPod ''5Gi'' None) (Inl notFound) (Some alreadyExists))
     \<lparr>PVCName = ''pvc-x'', PVCNamespace = ''ns1'', Labels = [],
      OwnerReferences = [NewControllerRef (claimedPod ''5Gi'' None)],
      AccessModes = [''ReadWriteOnce''], StorageRequest = Quantity 5 ''Gi'',
      StorageClassName = Some ''standard'', Phase = ''''\<rparr> = Some alreadyExists
   \<and> (\<exists>evs. PVCReconciler_Reconcile
         (exampleCluster (claimedPod ''5Gi'' None) (Inl notFound) (Some alreadyExists))
         examplePVCReconciler (''ns1'', ''web-0'') =
       Returned
         (evs @ [CreateReq
            \<lparr>PVCName = ''pvc-x'', PVCNamespace = ''ns1'', Labels = [],
             OwnerReferences = [NewControllerRef (claimedPod ''5Gi'' None)],
             AccessModes = [''ReadWriteOnce''], StorageRequest = Quantity 5 ''Gi'',
             StorageClassName = Some ''standard'', Phase = ''''\<rparr>])
         0 (Some alreadyExists))"
proof -
  let ?C = "exampleCluster (claimedPod ''5Gi'' None) (Inl notFound) (Some alreadyExists)"
  let ?pvc = "\<lparr>PVCName = ''pvc-x'', PVCNamespace = ''ns1'', Labels = [],
               OwnerReferences = [NewControllerRef (claimedPod ''5Gi'' None)],
               AccessModes = [''ReadWriteOnce''], StorageRequest = Quantity 5 ''Gi'',
               StorageClassName = Some ''standard'', Phase = ''''\<rparr>"
  let ?out = "PVCReconciler_Reconcile ?C examplePVCReconciler (''ns1'', ''web-0'')"
  have o: "?out = PVCReconciler_Reconcile ?C examplePVCReconciler (''ns1'', ''web-0'') \<or>
           ?out = PersistentVolumeClaimReconciler_Reconcile ?C \<lparr>RecorderSet = True\<rparr>
                    (''ns1'', ''web-0'')"
    by simp
  have m: "CreateReq ?pvc \<in> set (events ?out)"
    by code_simp
  have c: "createPVC ?C ?pvc = Some alreadyExists"
    by (simp add: exampleCluster_def)
  from create_error_is_returned[OF o m c] c show ?thesis
    by simp
qed

text \<open>
  C5 as stated fails on both reconcilers: the lookup finds no claim, the create is
  answered with already-exists, and the pass returns that error.
\<close>

theorem already_exists_counterexample:
  "Reason alreadyExists = AlreadyExists
   \<and> PVCReconciler_Reconcile
       (exampleCluster (claimedPod ''5Gi'' None) (Inl notFound) (Some alreadyExists))
       examplePVCReconciler (''ns1'', ''web-0'') =
     Returned
       [GetPodReq (''ns1'', ''web-0''), GetPVCReq (''ns1'', ''pvc-x''),
        CreateReq
          \<lparr>PVCName = ''pvc-x'', PVCNamespace = ''ns1'', Labels = [],
           OwnerReferences =
             [\<lparr>OwnerKind = ''Pod'', OwnerName = ''web-0'', OwnerUID = ''uid-web-0'',
               Controller = True, BlockOwnerDeletion = True\<rparr>],
           AccessModes = [''ReadWriteOnce''], StorageRequest = Quantity 5 ''Gi'',
           StorageClassName = Some ''standard'', Phase = ''''\<rparr>]
       0 (Some alreadyExists)
   \<and> PersistentVolumeClaimReconciler_Reconcile
       (exampleCluster (claimedPod ''5Gi'' None) (Inl notFound) (Some alreadyExists))
       \<lparr>RecorderSet = True\<rparr> (''ns1'', ''web-0'') =
     Returned
       [GetPodReq (''ns1'', ''web-0''), GetPVCReq (''ns1'', ''pvc-x''),
        CreateReq
          \<lparr>PVCName = ''pvc-x'', PVCNamespace = ''ns1'',
           Labels = [(''created-by'', ''pvc-webhook''), (''pod'', ''web-0'')],
           OwnerReferences =
             [\<lparr>OwnerKind = ''Pod'', OwnerName = ''web-0'', OwnerUID = ''uid-web-0'',
               Controller = True, BlockOwnerDeletion = True\<rparr>],
           AccessModes = [''ReadWriteOnce''], StorageRequest = Quantity 5 ''Gi'',
           StorageClassName = None, Phase = ''''\<rparr>]
       0 (Some alreadyExists)"
  by code_simp

text \<open>
  C6, as amended. A pod has its deletion timestamp set and a claim annotation that is
  not empty. PVCReconciler looks the annotated claim up: when the lookup succeeds it
  issues exactly one delete request, for the claim it found; when the lookup fails it
  issues none; either way it creates nothing and returns the empty result.
  PersistentVolumeClaimReconciler never issues a delete request: it leaves the claim to
  the owner reference.
\<close>

theorem deleting_pod_delete_requests:
  assumes "getPod C req = Inr pod"
    and "annoGet pod ''pvc-webhook/claim'' = cn"
    and "cn \<noteq> ''''"
    and "\<not> timeIsZero (DeletionTimestamp pod)"
  shows "(\<forall>pvc. getPVC C (Namespace pod, cn) = Inr pvc \<longrightarrow>
            deleteRequests (PVCReconciler_Reconcile C r req) = [pvc])
       \<and> (\<forall>e. getPVC C (Namespace pod, cn) = Inl e \<longrightarrow>
            deleteRequests (PVCReconciler_Reconcile C r req) = [])
       \<and> createRequests (PVCReconciler_Reconcile C r req) = []
       \<and> (\<exists>evs err. PVCReconciler_Reconcile C r req = Returned evs 0 err)
       \<and> deleteRequests (PersistentVolumeClaimReconciler_Reconcile C r' req) = []"
  using assms PersistentVolumeClaimReconciler_no_delete[of C r' req]
  by (auto simp: PVCReconciler_Reconcile_def PVCReconciler_cleanup_def deleteRequests_def
      createRequests_def List.map_filter_simps Let_def
      split: option.splits sum.splits)

theorem deleting_pod_delete_requests_witness:
  "getPVC (exampleCluster (claimedPod ''5Gi'' (Some 100)) (Inr boundPVC) None) (''ns1'', ''pvc-x'') =
     Inr boundPVC
   \<and> deleteRequests (PVCReconciler_Reconcile
        (exampleCluster (claimedPod ''5Gi'' (Some 100)) (Inr boundPVC) None)
        examplePVCReconciler (''ns1'', ''web-0'')) = [boundPVC]
   \<and> getPVC (exampleCluster (claimedPod ''5Gi'' (Some 100)) (Inl notFound) None) (''ns1'', ''pvc-x'') =
     Inl notFound
   \<and> deleteRequests (PVCReconciler_Reconcile
        (exampleCluster (claimedPod ''5Gi'' (Some 100)) (Inl notFound) None)
        examplePVCReconciler (''ns1'', ''web-0'')) = []"
proof -
  let ?pod = "claimedPod ''5Gi'' (Some 100)"
  let ?C1 = "exampleCluster ?pod (Inr boundPVC) None"
  let ?C2 = "exampleCluster ?pod (Inl notFound) None"
  have g1: "getPod ?C1 (''ns1'', ''web-0'') = Inr ?pod"
    by (simp add: exampleCluster_def claimedPod_def)
  have g2: "getPod ?C2 (''ns1'', ''web-0'') = Inr ?pod"
    by (simp add: exampleCluster_def claimedPod_def)
  have cl: "annoGet ?pod ''pvc-webhook/claim'' = ''pvc-x''"
    by (simp add: annoGet_def claimedPod_def)
  have ne: "''pvc-x'' \<noteq> ''''"
    by simp
  have dl: "\<not> timeIsZero (DeletionTimestamp ?pod)"
    by (simp add: timeIsZero_def claimedPod_def)
  have ns: "Namespace ?pod = ''ns1''"
    by (simp add: claimedPod_def)
  have p1: "getPVC ?C1 (''ns1'', ''pvc-x'') = Inr boundPVC"
    by (simp add: exampleCluster_def)
  have p2: "getPVC ?C2 (''ns1'', ''pvc-x'') = Inl notFound"
    by (simp add: exampleCluster_def)
  from deleting_pod_delete_requests[OF g1 cl ne dl, of examplePVCReconciler]
    deleting_pod_delete_requests[OF g2 cl ne dl, of examplePVCReconciler] p1 p2
  show ?thesis
    by (simp add: ns)
qed

text \<open>
  C6 as stated fails on PersistentVolumeClaimReconciler: the pod has a deletion
  timestamp and the claim annotation pvc-x, the claim exists and is bound, and the pass
  issues no delete request.
\<close>

theorem deleting_pod_counterexample:
  "\<not> timeIsZero (DeletionTimestamp (claimedPod ''5Gi'' (Some 100)))
   \<and> annoGet (claimedPod ''5Gi'' (Some 100)) ''pvc-webhook/claim'' = ''pvc-x''
   \<and> getPVC (exampleCluster (claimedPod ''5Gi'' (Some 100)) (Inr boundPVC) None) (''ns1'', ''pvc-x'') =
     Inr boundPVC
   \<and> PersistentVolumeClaimReconciler_Reconcile
       (exampleCluster (claimedPod ''5Gi'' (Some 100)) (Inr boundPVC) None)
       \<lparr>RecorderSet = True\<rparr> (''ns1'', ''web-0'') =
     Returned
       [GetPodReq (''ns1'', ''web-0''), GetPVCReq (''ns1'', ''pvc-x''),
        LogInfo ''PVC already bound'']
       0 None
   \<and> deleteRequests (PersistentVolumeClaimReconciler_Reconcile
        (exampleCluster (claimedPod ''5Gi'' (Some 100)) (Inr boundPVC) None)
        \<lparr>RecorderSet = True\<rparr> (''ns1'', ''web-0'')) = []"
  by code_simp

end
